theory Spec2Isabelle
  imports Complex_Main "HOL-Library.Sublist" "HOL-Library.Log_Nat"
begin

section \<open>Classification mapper (utilities/lcz\_utils.py)\<close>

subsection \<open>Values, errors and the mapper file\<close>

text \<open>
  The exceptions that the modelled functions can let escape.  \<open>UnboundLocalError\<close> is
  what Python raises when a local variable is read before any assignment to it.
\<close>

datatype error =
    FileNotFoundError
  | JSONDecodeError
  | ValueError
  | UnboundLocalError
  | KeyError
  | TypeError

text \<open>
  One cell of a pandas Series of LCZ values: a numerical code, a class label, or the
  missing value (NaN) that \<open>Series.map\<close> leaves where a lookup finds nothing.
\<close>

datatype cell = Num int | Cls string | Missing

text \<open>
  A Python \<open>dict\<close> from numerical codes to class labels.  A dict iterates in insertion
  order, so it is an association list whose keys are pairwise distinct.
\<close>

type_synonym py_dict = "(int \<times> string) list"

text \<open>\<open>d[k] = v\<close>: an existing key keeps its position and takes the new value, a new key
  goes to the end.\<close>

fun dict_set :: "py_dict \<Rightarrow> int \<Rightarrow> string \<Rightarrow> py_dict" where
  "dict_set [] k v = [(k, v)]"
| "dict_set ((k', v') # d) k v =
     (if k' = k then (k', v) # d else (k', v') # dict_set d k v)"

text \<open>The comprehension \<open>{int(key): value for key, value in dct.items()}\<close>, over the
  items with their keys already read as integers.\<close>

definition dict_comp :: "(int \<times> string) list \<Rightarrow> py_dict" where
  "dict_comp items = foldl (\<lambda>d (k, v). dict_set d k v) [] items"

definition keys :: "py_dict \<Rightarrow> int list" where
  "keys d = map fst d"

definition values_of :: "py_dict \<Rightarrow> string list" where
  "values_of d = map snd d"

definition dict_get :: "py_dict \<Rightarrow> int \<Rightarrow> string option" where
  "dict_get d k = map_of d k"

text \<open>
  What \<open>mapper_file_path\<close> points at: no file, a file that is not JSON, or a JSON object
  \<open>Members items\<close>, where \<open>items\<close> lists the members in file order, each key being the
  integer that \<open>int(key)\<close> reads from the member's name and each value a class label.
  Distinct names may read as the same integer (\<open>"1"\<close> and \<open>"01"\<close>), so \<open>items\<close> may
  repeat a key.
\<close>

datatype mapper_file = Absent | Malformed | Members "(int \<times> string) list"

text \<open>The block \<open>with open(...) as file: json.load(file, object_hook=...)\<close> that both
  \<open>convert_LCZ_num_to_class\<close> and \<open>get_LCZ_order\<close> start with.\<close>

fun json_load :: "mapper_file \<Rightarrow> error + py_dict" where
  "json_load Absent = Inl FileNotFoundError"
| "json_load Malformed = Inl JSONDecodeError"
| "json_load (Members items) = Inr (dict_comp items)"

subsection \<open>convert\_LCZ\_num\_to\_class\<close>

text \<open>\<open>Series.map(dict)\<close>: every cell is looked up in the dict, and a cell that is not a
  key becomes the missing value.\<close>

fun map_cell :: "py_dict \<Rightarrow> cell \<Rightarrow> cell" where
  "map_cell d (Num k) = (case dict_get d k of Some l \<Rightarrow> Cls l | None \<Rightarrow> Missing)"
| "map_cell d (Cls s) = Missing"
| "map_cell d Missing = Missing"

definition series_map :: "cell list \<Rightarrow> py_dict \<Rightarrow> cell list" where
  "series_map s d = map (map_cell d) s"

definition convert_LCZ_num_to_class :: "cell list \<Rightarrow> mapper_file \<Rightarrow> error + cell list" where
  "convert_LCZ_num_to_class LCZ_num mapper_file =
     (case json_load mapper_file of
        Inl e \<Rightarrow> Inl e
      | Inr LCZ_num_to_class \<Rightarrow> Inr (series_map LCZ_num LCZ_num_to_class))"

subsection \<open>get\_LCZ\_order\<close>

text \<open>\<open>Series.unique()\<close>: the distinct cells in order of first appearance.\<close>

fun unique :: "cell list \<Rightarrow> cell list" where
  "unique [] = []"
| "unique (x # xs) = x # unique (filter (\<lambda>y. y \<noteq> x) xs)"

text \<open>
  The \<open>match\<close> statement.  Its last case builds a \<open>ValueError\<close> object and drops it (there
  is no \<open>raise\<close>), so for an unrecognised kind \<open>LCZ_ref\<close> stays unassigned: \<open>None\<close> here.
\<close>

definition lcz_ref :: "py_dict \<Rightarrow> string \<Rightarrow> cell list option" where
  "lcz_ref LCZ_num_to_class LCZ_kind =
     (if LCZ_kind = ''num'' then Some (map Num (keys LCZ_num_to_class))
      else if LCZ_kind = ''class'' then Some (map Cls (values_of LCZ_num_to_class))
      else None)"

definition get_LCZ_order :: "cell list \<Rightarrow> mapper_file \<Rightarrow> string \<Rightarrow> error + cell list" where
  "get_LCZ_order LCZ mapper_file LCZ_kind =
     (case json_load mapper_file of
        Inl e \<Rightarrow> Inl e
      | Inr LCZ_num_to_class \<Rightarrow>
          (let LCZ_unique = unique LCZ in
           case lcz_ref LCZ_num_to_class LCZ_kind of
             None \<Rightarrow> Inl UnboundLocalError
           | Some LCZ_ref \<Rightarrow> Inr (filter (\<lambda>x. x \<in> set LCZ_unique) LCZ_ref)))"

section \<open>Comparison plotter (utilities/plot\_utils.py)\<close>

subsection \<open>Binary floating point\<close>

text \<open>
  A Python \<open>float\<close> and a numpy \<open>float64\<close>: a finite value (a rational), an infinity or
  NaN.  The two zeros are not told apart.
\<close>

datatype float64 = Fin rat | PInf | NInf | NaN

definition pow2 :: "int \<Rightarrow> rat" where
  "pow2 e = 2 powi e"

text \<open>The nearest integer, a tie going to the even one.\<close>

definition round_even :: "rat \<Rightarrow> int" where
  "round_even q =
     (let f = \<lfloor>q\<rfloor>; d = q - of_int f
      in if d < 1 / 2 then f else if 1 / 2 < d then f + 1
         else if even f then f else f + 1)"

text \<open>For \<open>x > 0\<close>, the exponent \<open>e\<close> with \<open>2 ^ e \<le> x < 2 ^ (e + 1)\<close>.\<close>

definition expo :: "rat \<Rightarrow> int" where
  "expo x =
     (case quotient_of x of (p, q) \<Rightarrow>
        (let e = bitlen p - bitlen q in if pow2 e \<le> x then e else e - 1))"

text \<open>
  Rounding a rational to binary64, to nearest and ties to even: 53 significant bits, the
  least exponent \<open>-1022\<close> (below it the spacing stays \<open>2 ^ -1074\<close>), and an infinity when
  the rounded value reaches \<open>2 ^ 1024\<close>.
\<close>

definition rnd :: "rat \<Rightarrow> float64" where
  "rnd x =
     (if x = 0 then Fin 0
      else
        (let u = pow2 (max (expo \<bar>x\<bar>) (- 1022) - 52);
             r = of_int (round_even (x / u)) * u
         in if pow2 1024 \<le> \<bar>r\<bar> then (if 0 < x then PInf else NInf) else Fin r))"

fun fneg :: "float64 \<Rightarrow> float64" where
  "fneg (Fin a) = Fin (- a)"
| "fneg PInf = NInf"
| "fneg NInf = PInf"
| "fneg NaN = NaN"

fun fadd :: "float64 \<Rightarrow> float64 \<Rightarrow> float64" where
  "fadd (Fin a) (Fin b) = rnd (a + b)"
| "fadd NaN y = NaN"
| "fadd x NaN = NaN"
| "fadd PInf NInf = NaN"
| "fadd NInf PInf = NaN"
| "fadd PInf y = PInf"
| "fadd NInf y = NInf"
| "fadd (Fin a) y = y"

definition fsub :: "float64 \<Rightarrow> float64 \<Rightarrow> float64" where
  "fsub x y = fadd x (fneg y)"

fun fmul :: "float64 \<Rightarrow> float64 \<Rightarrow> float64" where
  "fmul (Fin a) (Fin b) = rnd (a * b)"
| "fmul NaN y = NaN"
| "fmul x NaN = NaN"
| "fmul (Fin a) y = (if a = 0 then NaN else if (0 < a) = (y = PInf) then PInf else NInf)"
| "fmul x (Fin b) = (if b = 0 then NaN else if (0 < b) = (x = PInf) then PInf else NInf)"
| "fmul x y = (if x = y then PInf else NInf)"

text \<open>The order of the floats; NaN compares with nothing.\<close>

fun fle :: "float64 \<Rightarrow> float64 \<Rightarrow> bool" where
  "fle NaN y = False"
| "fle x NaN = False"
| "fle (Fin a) (Fin b) = (a \<le> b)"
| "fle NInf y = True"
| "fle x PInf = True"
| "fle x y = False"

text \<open>The literal \<open>0.05\<close>.\<close>

definition literal_0_05 :: float64 where
  "literal_0_05 = rnd (1 / 20)"

subsection \<open>Data frames and numpy scalars\<close>

text \<open>The signed integer dtypes, their widths, and the dtype that two of them share.\<close>

datatype int_dtype = Int8 | Int16 | Int32 | Int64

fun bits :: "int_dtype \<Rightarrow> nat" where
  "bits Int8 = 8"
| "bits Int16 = 16"
| "bits Int32 = 32"
| "bits Int64 = 64"

definition wider :: "int_dtype \<Rightarrow> int_dtype \<Rightarrow> int_dtype" where
  "wider t t' = (if bits t \<le> bits t' then t' else t)"

text \<open>The value that a fixed-width integer operation leaves: the result modulo
  \<open>2 ^ bits\<close>, in the signed range.\<close>

definition wrap :: "int_dtype \<Rightarrow> int \<Rightarrow> int" where
  "wrap t k = (k + 2 ^ (bits t - 1)) mod 2 ^ bits t - 2 ^ (bits t - 1)"

text \<open>
  A column of a data frame: integers of a signed dtype (each within the dtype's range),
  finite \<open>float64\<close> values (each a binary64 number), or class labels with \<open>None\<close> for a
  missing label.  A data frame is the list of its named columns.
\<close>

datatype column =
    Ints int_dtype "int list"
  | Floats "rat list"
  | Labels "string option list"

type_synonym dataframe = "(string \<times> column) list"

text \<open>A numpy scalar, as \<open>min()\<close> and \<open>max()\<close> return it.\<close>

datatype scalar = IntS int_dtype int | FloatS float64

text \<open>What a scalar becomes in an operation with a float.\<close>

fun to_float :: "scalar \<Rightarrow> float64" where
  "to_float (IntS t k) = rnd (of_int k)"
| "to_float (FloatS f) = f"

text \<open>
  \<open>min()\<close> and \<open>max()\<close> of one column.  A column without entries gives NaN; so does a
  column of missing labels, and a column with a label cannot be reduced together with
  numbers (\<open>TypeError\<close>).
\<close>

fun col_min :: "column \<Rightarrow> error + scalar" where
  "col_min (Ints t []) = Inr (FloatS NaN)"
| "col_min (Ints t (x # xs)) = Inr (IntS t (fold min xs x))"
| "col_min (Floats []) = Inr (FloatS NaN)"
| "col_min (Floats (x # xs)) = Inr (FloatS (Fin (fold min xs x)))"
| "col_min (Labels ls) = (if list_ex (\<lambda>l. l \<noteq> None) ls then Inl TypeError else Inr (FloatS NaN))"

fun col_max :: "column \<Rightarrow> error + scalar" where
  "col_max (Ints t []) = Inr (FloatS NaN)"
| "col_max (Ints t (x # xs)) = Inr (IntS t (fold max xs x))"
| "col_max (Floats []) = Inr (FloatS NaN)"
| "col_max (Floats (x # xs)) = Inr (FloatS (Fin (fold max xs x)))"
| "col_max (Labels ls) = (if list_ex (\<lambda>l. l \<noteq> None) ls then Inl TypeError else Inr (FloatS NaN))"

text \<open>
  The second \<open>min()\<close> (or \<open>max()\<close>), over the Series of the two column results.  Two
  integers stay integers, of the wider dtype; otherwise the Series holds floats, and NaN
  is skipped.
\<close>

fun nan_min :: "float64 \<Rightarrow> float64 \<Rightarrow> float64" where
  "nan_min NaN y = y"
| "nan_min x NaN = x"
| "nan_min x y = (if fle x y then x else y)"

fun nan_max :: "float64 \<Rightarrow> float64 \<Rightarrow> float64" where
  "nan_max NaN y = y"
| "nan_max x NaN = x"
| "nan_max x y = (if fle x y then y else x)"

fun series_min :: "scalar \<Rightarrow> scalar \<Rightarrow> scalar" where
  "series_min (IntS t a) (IntS t' b) = IntS (wider t t') (min a b)"
| "series_min x y = FloatS (nan_min (to_float x) (to_float y))"

fun series_max :: "scalar \<Rightarrow> scalar \<Rightarrow> scalar" where
  "series_max (IntS t a) (IntS t' b) = IntS (wider t t') (max a b)"
| "series_max x y = FloatS (nan_max (to_float x) (to_float y))"

text \<open>\<open>x - y\<close> on two scalars: integer subtraction wraps around in the scalars' dtype.\<close>

fun scalar_sub :: "scalar \<Rightarrow> scalar \<Rightarrow> scalar" where
  "scalar_sub (IntS t a) (IntS t' b) = IntS (wider t t') (wrap (wider t t') (a - b))"
| "scalar_sub x y = FloatS (fsub (to_float x) (to_float y))"

subsection \<open>The calls of the charting libraries\<close>

text \<open>
  The calls that \<open>plot_pred_vs_actual\<close> makes to matplotlib and seaborn, with the
  arguments that vary from one invocation to another.
\<close>

datatype call =
    Rc_context
  | Figure
  | Axes
  | Title string
  | Scatterplot dataframe string string "string option" "cell list option"
      "(string \<times> string) list option"
  | Text "(string \<times> real) list"
  | Set_xlim float64 float64
  | Set_ylim float64 float64
  | Axline
  | Set_xlabel string
  | Set_ylabel string
  | Minorticks_on
  | Set_aspect
  | Grid string
  | Legend "string option"
  | Show

text \<open>One step of the function body: a library call, or an exception raised by the
  body's own pandas expressions.\<close>

datatype step = Do call | Raise error

text \<open>
  Running the steps in order against a library \<open>lib\<close>, which tells for each call whether
  it raises.  The result is the list of calls that returned, and the exception that ended
  the run, if any.
\<close>

fun run :: "(call \<Rightarrow> error option) \<Rightarrow> step list \<Rightarrow> call list \<times> error option" where
  "run lib [] = ([], None)"
| "run lib (Raise e # ss) = ([], Some e)"
| "run lib (Do c # ss) =
     (case lib c of
        Some e \<Rightarrow> ([], Some e)
      | None \<Rightarrow> (case run lib ss of (cs, r) \<Rightarrow> (c # cs, r)))"

subsection \<open>The axes' ranges\<close>

text \<open>
  Lines 112 to 118: \<open>df[[col_actual, col_pred]]\<close> raises \<open>KeyError\<close> when a column is
  absent; the result is \<open>(x_min, x_max, y_min, y_max)\<close>.
\<close>

definition axes_ranges ::
  "dataframe \<Rightarrow> string \<Rightarrow> string \<Rightarrow> error + (float64 \<times> float64 \<times> float64 \<times> float64)" where
  "axes_ranges df col_actual col_pred =
     (case map_of df col_actual of
        None \<Rightarrow> Inl KeyError
      | Some actual \<Rightarrow>
     (case map_of df col_pred of
        None \<Rightarrow> Inl KeyError
      | Some pred \<Rightarrow>
     (case col_min actual of
        Inl e \<Rightarrow> Inl e
      | Inr actual_min \<Rightarrow>
     (case col_min pred of
        Inl e \<Rightarrow> Inl e
      | Inr pred_min \<Rightarrow>
     (case col_max actual of
        Inl e \<Rightarrow> Inl e
      | Inr actual_max \<Rightarrow>
     (case col_max pred of
        Inl e \<Rightarrow> Inl e
      | Inr pred_max \<Rightarrow>
         (let x_min = series_min actual_min pred_min;
              x_max = series_max actual_max pred_max;
              Delta_x = scalar_sub x_max x_min;
              x_min = fsub (to_float x_min) (fmul literal_0_05 (to_float Delta_x));
              x_max = fadd (to_float x_max) (fmul literal_0_05 (to_float Delta_x));
              y_min = x_min;
              y_max = x_max
          in Inr (x_min, x_max, y_min, y_max))))))))"

text \<open>
  The interval that the specification asks for, in binary64 arithmetic, from the least
  value \<open>lo\<close>, the greatest value \<open>hi\<close> and their distance \<open>d\<close>.
\<close>

definition padded :: "float64 \<Rightarrow> float64 \<Rightarrow> float64 \<Rightarrow> float64 \<times> float64" where
  "padded lo hi d = (fsub lo (fmul literal_0_05 d), fadd hi (fmul literal_0_05 d))"

subsection \<open>plot\_pred\_vs\_actual\<close>

definition axis_label :: "string \<Rightarrow> string \<Rightarrow> string \<Rightarrow> string" where
  "axis_label what target_title_fancy target_units_title_fancy =
     what @ '' '' @ target_title_fancy @ '' $ '' @ [CHR 0x5C] @ '', [$ ''
       @ target_units_title_fancy @ '' $]$''"

text \<open>The steps of the body from the axes' ranges on (lines 112 to 179).\<close>

definition range_steps ::
  "dataframe \<Rightarrow> string \<Rightarrow> string \<Rightarrow> string option \<Rightarrow> string \<Rightarrow> string \<Rightarrow> bool \<Rightarrow> step list" where
  "range_steps df col_actual col_pred hue_title_fancy target_title_fancy
       target_units_title_fancy use_hue =
     (case axes_ranges df col_actual col_pred of
        Inl e \<Rightarrow> [Raise e]
      | Inr (x_min, x_max, y_min, y_max) \<Rightarrow>
          [Do (Set_xlim x_min x_max),
           Do (Set_ylim y_min y_max),
           Do Axline,
           Do (Set_xlabel (axis_label ''Actual'' target_title_fancy target_units_title_fancy)),
           Do (Set_ylabel (axis_label ''Predicted'' target_title_fancy target_units_title_fancy)),
           Do Minorticks_on,
           Do Set_aspect,
           Do (Grid ''major''),
           Do (Grid ''minor'')]
          @ (if use_hue then [Do (Legend hue_title_fancy)] else [])
          @ [Do Show])"

text \<open>The whole body, in the order of the source.\<close>

definition plot_steps ::
  "dataframe \<Rightarrow> string \<Rightarrow> string \<Rightarrow> string option \<Rightarrow> string option \<Rightarrow> cell list option \<Rightarrow>
     (string \<times> string) list option \<Rightarrow> string \<Rightarrow> string \<Rightarrow> (string \<times> real) list option \<Rightarrow>
     bool \<Rightarrow> bool \<Rightarrow> step list" where
  "plot_steps df col_actual col_pred col_hue hue_title_fancy hue_order hue_palette
       target_title_fancy target_units_title_fancy scores use_hue print_scores =
     [Do Rc_context,
      Do Figure,
      Do Axes,
      Do (Title (''Actual and predicted '' @ target_title_fancy)),
      Do (Scatterplot df col_actual col_pred
            (if use_hue then col_hue else None)
            (if use_hue then hue_order else None)
            (if use_hue then hue_palette else None))]
     @ (case scores of
          Some sc \<Rightarrow> if print_scores then [Do (Text sc)] else []
        | None \<Rightarrow> [])
     @ range_steps df col_actual col_pred hue_title_fancy target_title_fancy
         target_units_title_fancy use_hue"

definition plot_pred_vs_actual ::
  "(call \<Rightarrow> error option) \<Rightarrow>
     dataframe \<Rightarrow> string \<Rightarrow> string \<Rightarrow> string option \<Rightarrow> string option \<Rightarrow> cell list option \<Rightarrow>
     (string \<times> string) list option \<Rightarrow> string \<Rightarrow> string \<Rightarrow> (string \<times> real) list option \<Rightarrow>
     bool \<Rightarrow> bool \<Rightarrow> call list \<times> error option" where
  "plot_pred_vs_actual lib df col_actual col_pred col_hue hue_title_fancy hue_order
       hue_palette target_title_fancy target_units_title_fancy scores use_hue print_scores =
     run lib (plot_steps df col_actual col_pred col_hue hue_title_fancy hue_order
                hue_palette target_title_fancy target_units_title_fancy scores use_hue
                print_scores)"

subsection \<open>Two libraries to run the plotter against\<close>

text \<open>A library in which every call returns.\<close>

definition lenient :: "call \<Rightarrow> error option" where
  "lenient c = None"

text \<open>A library whose scatter plot rejects, with \<open>ValueError\<close>, the name of a column
  that the data frame does not have, as seaborn's does; every other call returns.\<close>

fun strict :: "call \<Rightarrow> error option" where
  "strict (Scatterplot df x y hue hue_order palette) =
     (if map_of df x = None then Some ValueError
      else if map_of df y = None then Some ValueError
      else case hue of
             None \<Rightarrow> None
           | Some h \<Rightarrow> if map_of df h = None then Some ValueError else None)"
| "strict c = None"

section \<open>Properties of the classification mapper\<close>

subsection \<open>Dicts\<close>

lemma keys_dict_set: "set (keys (dict_set d k v)) = insert k (set (keys d))"
proof (induction d)
  case Nil
  then show ?case by (simp add: keys_def)
next
  case (Cons p d)
  obtain k' v' where p: "p = (k', v')" by (cases p)
  from Cons.IH have "fst ` set (dict_set d k v) = insert k (fst ` set d)"
    by (simp add: keys_def)
  then show ?case by (auto simp: keys_def p)
qed

lemma distinct_dict_set: "distinct (keys d) \<Longrightarrow> distinct (keys (dict_set d k v))"
proof (induction d)
  case Nil
  then show ?case by (simp add: keys_def)
next
  case (Cons p d)
  obtain k' v' where p: "p = (k', v')" by (cases p)
  from Cons.prems have dk: "distinct (keys d)" and nk: "k' \<notin> set (keys d)"
    by (simp_all add: keys_def p)
  show ?case
  proof (cases "k' = k")
    case True
    with Cons.prems show ?thesis by (simp add: keys_def p)
  next
    case False
    have "k' \<notin> set (keys (dict_set d k v))"
      using nk False by (simp add: keys_dict_set)
    moreover have "distinct (keys (dict_set d k v))" by (rule Cons.IH [OF dk])
    ultimately show ?thesis using False by (simp add: keys_def p)
  qed
qed

lemma distinct_foldl_dict_set:
  "distinct (keys d) \<Longrightarrow> distinct (keys (foldl (\<lambda>d (k, v). dict_set d k v) d items))"
  by (induction items arbitrary: d) (auto simp: distinct_dict_set)

lemma distinct_keys_dict_comp: "distinct (keys (dict_comp items))"
  unfolding dict_comp_def by (rule distinct_foldl_dict_set) (simp add: keys_def)

lemma dict_set_fresh: "k \<notin> set (keys d) \<Longrightarrow> dict_set d k v = d @ [(k, v)]"
  by (induction d) (auto simp: keys_def)

lemma foldl_dict_set_distinct:
  "distinct (keys (d @ items)) \<Longrightarrow>
   foldl (\<lambda>d (k, v). dict_set d k v) d items = d @ items"
proof (induction items arbitrary: d)
  case Nil
  then show ?case by simp
next
  case (Cons p items)
  obtain k v where p: "p = (k, v)" by (cases p)
  from Cons.prems have fresh: "k \<notin> set (keys d)" by (auto simp: keys_def p)
  from Cons.prems have "distinct (keys ((d @ [(k, v)]) @ items))" by (simp add: p)
  from Cons.IH [OF this] show ?case by (simp add: p dict_set_fresh [OF fresh])
qed

text \<open>Every association list with distinct keys is the dict of its own items, so the
  theorems below, stated for \<open>dict_comp items\<close>, cover every dict.\<close>

lemma dict_comp_distinct: "distinct (keys d) \<Longrightarrow> dict_comp d = d"
  unfolding dict_comp_def using foldl_dict_set_distinct [of "[]" d] by simp

subsection \<open>unique\<close>

lemma set_unique: "set (unique xs) = set xs"
  by (induction xs rule: unique.induct) auto

lemma distinct_unique: "distinct (unique xs)"
  by (induction xs rule: unique.induct) (auto simp: set_unique)

subsection \<open>What the two functions compute on a well-formed mapper\<close>

lemma dict_get_None: "dict_get d k = None \<longleftrightarrow> k \<notin> set (keys d)"
  by (simp add: dict_get_def keys_def map_of_eq_None_iff)

lemma convert_Members:
  "convert_LCZ_num_to_class s (Members items) = Inr (map (map_cell (dict_comp items)) s)"
  by (simp add: convert_LCZ_num_to_class_def series_map_def)

lemma get_LCZ_order_num:
  "get_LCZ_order LCZ (Members items) ''num'' =
     Inr (filter (\<lambda>x. x \<in> set LCZ) (map Num (keys (dict_comp items))))"
  by (simp add: get_LCZ_order_def lcz_ref_def set_unique)

lemma get_LCZ_order_class:
  "get_LCZ_order LCZ (Members items) ''class'' =
     Inr (filter (\<lambda>x. x \<in> set LCZ) (map Cls (values_of (dict_comp items))))"
  by (simp add: get_LCZ_order_def lcz_ref_def set_unique)

lemma get_LCZ_order_other:
  "LCZ_kind \<noteq> ''num'' \<Longrightarrow> LCZ_kind \<noteq> ''class'' \<Longrightarrow>
   get_LCZ_order LCZ (Members items) LCZ_kind = Inl UnboundLocalError"
  by (simp add: get_LCZ_order_def lcz_ref_def)

lemma filter_mem_idem:
  "filter (\<lambda>x. x \<in> set (filter (\<lambda>x. x \<in> A) ref)) ref = filter (\<lambda>x. x \<in> A) ref"
  by (rule filter_cong) auto

text \<open>The part of the ordering contract that holds for every mapper: the result for kind
  \<open>class\<close> is a subsequence of the mapper's labels, and it holds exactly the labels that
  occur in the input.\<close>

lemma get_LCZ_order_class_subseq:
  "\<exists>order. get_LCZ_order LCZ (Members items) ''class'' = Inr order \<and>
     subseq order (map Cls (values_of (dict_comp items))) \<and>
     set order = set LCZ \<inter> Cls ` set (values_of (dict_comp items))"
  by (auto simp: get_LCZ_order_class)

lemma get_LCZ_order_class_distinct:
  "distinct (values_of (dict_comp items)) \<Longrightarrow>
   \<exists>order. get_LCZ_order LCZ (Members items) ''class'' = Inr order \<and> distinct order"
  by (simp add: get_LCZ_order_class distinct_map inj_on_def)

section \<open>Claims on the classification mapper\<close>

text \<open>
  C1.  The claim: for every reference table, \<open>get_LCZ_order\<close> with kind \<open>class\<close> returns a
  subsequence of the table's labels with duplicates removed.  The function filters the
  table's labels and removes nothing from them: with a table that gives two codes the
  same label \<open>A\<close>, and an input holding \<open>A\<close>, the returned list holds \<open>A\<close> twice.
\<close>

theorem get_LCZ_order_repeated_label:
  "get_LCZ_order [Cls ''A''] (Members [(1, ''A''), (2, ''A'')]) ''class''
     = Inr [Cls ''A'', Cls ''A'']"
  by (simp add: get_LCZ_order_def lcz_ref_def dict_comp_def values_of_def)

text \<open>
  C2.  When every code of the input is a key of the table, \<open>convert_LCZ_num_to_class\<close>
  returns as many labels as there are codes, and the label at each position is the
  table's entry for the code at that position.
\<close>

theorem convert_LCZ_num_to_class_positions:
  assumes "set codes \<subseteq> set (keys (dict_comp items))"
  shows "\<exists>labels. convert_LCZ_num_to_class (map Num codes) (Members items) = Inr labels \<and>
           length labels = length codes \<and>
           (\<forall>i<length codes. \<exists>l. dict_get (dict_comp items) (codes ! i) = Some l \<and>
                                  labels ! i = Cls l)"
proof -
  let ?d = "dict_comp items"
  have "\<exists>l. dict_get ?d (codes ! i) = Some l \<and> map_cell ?d (Num (codes ! i)) = Cls l"
    if "i < length codes" for i
  proof -
    from that assms have "codes ! i \<in> set (keys ?d)" by auto
    then obtain l where "dict_get ?d (codes ! i) = Some l"
      using dict_get_None [of ?d "codes ! i"] by (cases "dict_get ?d (codes ! i)") auto
    then show ?thesis by simp
  qed
  then show ?thesis by (simp add: convert_Members)
qed

theorem convert_LCZ_num_to_class_positions_witness:
  "set [2, 1, 2, 3] \<subseteq> set (keys (dict_comp [(1, ''A''), (2, ''B''), (3, ''C'')])) \<and>
   convert_LCZ_num_to_class (map Num [2, 1, 2, 3]) (Members [(1, ''A''), (2, ''B''), (3, ''C'')])
     = Inr [Cls ''B'', Cls ''A'', Cls ''B'', Cls ''C'']"
proof -
  have h: "set [2, 1, 2, 3] \<subseteq> set (keys (dict_comp [(1, ''A''), (2, ''B''), (3, ''C'')]))"
    by (simp add: dict_comp_def keys_def)
  show ?thesis
    using h convert_LCZ_num_to_class_positions [OF h]
    by (simp add: convert_LCZ_num_to_class_def series_map_def dict_comp_def dict_get_def)
qed

text \<open>
  C3.  The claim: an unrecognised kind makes \<open>get_LCZ_order\<close> fail with \<open>ValueError\<close>.
  The function fails, but with \<open>UnboundLocalError\<close>: the \<open>ValueError\<close> of the last \<open>match\<close>
  case is never raised, and the failure comes from reading the unassigned \<open>LCZ_ref\<close>.
\<close>

theorem get_LCZ_order_unrecognised_kind:
  "get_LCZ_order [Cls ''A''] (Members [(1, ''A'')]) ''label'' = Inl UnboundLocalError"
  by (simp add: get_LCZ_order_def lcz_ref_def)

text \<open>
  C5.  A code that is not a key of the table does not make \<open>convert_LCZ_num_to_class\<close>
  fail: the function returns one cell per code, the cell at the position of that code is
  the missing value, and every position whose code is a key holds the table's label.
\<close>

theorem convert_LCZ_num_to_class_lookup_miss:
  assumes "j < length codes" and "codes ! j \<notin> set (keys (dict_comp items))"
  shows "\<exists>labels. convert_LCZ_num_to_class (map Num codes) (Members items) = Inr labels \<and>
           length labels = length codes \<and>
           labels ! j = Missing \<and>
           (\<forall>i<length codes. \<forall>l. dict_get (dict_comp items) (codes ! i) = Some l
                                  \<longrightarrow> labels ! i = Cls l)"
proof -
  from assms(2) have "dict_get (dict_comp items) (codes ! j) = None"
    by (simp add: dict_get_None)
  with assms(1) show ?thesis by (simp add: convert_Members)
qed

theorem convert_LCZ_num_to_class_lookup_miss_witness:
  "(1::nat) < length [2, 9, 1 :: int] \<and>
   [2, 9, 1] ! 1 \<notin> set (keys (dict_comp [(1, ''A''), (2, ''B'')])) \<and>
   convert_LCZ_num_to_class (map Num [2, 9, 1]) (Members [(1, ''A''), (2, ''B'')])
     = Inr [Cls ''B'', Missing, Cls ''A'']"
proof -
  have h1: "(1::nat) < length [2, 9, 1 :: int]" by simp
  have h2: "[2, 9, 1] ! 1 \<notin> set (keys (dict_comp [(1, ''A''), (2, ''B'')]))"
    by (simp add: dict_comp_def keys_def)
  show ?thesis
    using h1 h2 convert_LCZ_num_to_class_lookup_miss [OF h1 h2]
    by (simp add: convert_LCZ_num_to_class_def series_map_def dict_comp_def dict_get_def)
qed

text \<open>
  C7.  \<open>get_LCZ_order\<close> is idempotent: for a recognised kind it returns a list, and applied
  to that list (same mapper, same kind) it returns the same list again.
\<close>

theorem get_LCZ_order_idempotent:
  assumes "LCZ_kind = ''num'' \<or> LCZ_kind = ''class''"
  shows "\<exists>order. get_LCZ_order LCZ (Members items) LCZ_kind = Inr order \<and>
           get_LCZ_order order (Members items) LCZ_kind = Inr order"
proof -
  from assms obtain ref where
    r: "get_LCZ_order xs (Members items) LCZ_kind = Inr (filter (\<lambda>x. x \<in> set xs) ref)" for xs
    by (auto simp: get_LCZ_order_num get_LCZ_order_class)
  have "get_LCZ_order (filter (\<lambda>x. x \<in> set LCZ) ref) (Members items) LCZ_kind
          = Inr (filter (\<lambda>x. x \<in> set LCZ) ref)"
    unfolding r by (simp only: filter_mem_idem)
  with r [of LCZ] show ?thesis by simp
qed

theorem get_LCZ_order_idempotent_witness:
  "(''class'' = ''num'' \<or> ''class'' = ''class'') \<and>
   get_LCZ_order [Cls ''B'', Cls ''A'', Cls ''B'', Cls ''C'']
       (Members [(1, ''A''), (2, ''B''), (3, ''C'')]) ''class''
     = Inr [Cls ''A'', Cls ''B'', Cls ''C''] \<and>
   get_LCZ_order [Cls ''A'', Cls ''B'', Cls ''C'']
       (Members [(1, ''A''), (2, ''B''), (3, ''C'')]) ''class''
     = Inr [Cls ''A'', Cls ''B'', Cls ''C'']"
proof -
  have h: "''class'' = ''num'' \<or> ''class'' = ''class''" by simp
  show ?thesis
    using get_LCZ_order_idempotent [OF h, of "[Cls ''B'', Cls ''A'', Cls ''B'', Cls ''C'']"
        "[(1, ''A''), (2, ''B''), (3, ''C'')]"]
    by (simp add: get_LCZ_order_def lcz_ref_def dict_comp_def values_of_def)
qed

text \<open>
  C9.  The result of \<open>get_LCZ_order\<close> depends on the input only through the set of its
  values: two inputs with the same set of values give the same result, whatever their
  order and multiplicities.
\<close>

theorem get_LCZ_order_set_only:
  assumes "set LCZ = set LCZ'"
  shows "get_LCZ_order LCZ mapper_file LCZ_kind = get_LCZ_order LCZ' mapper_file LCZ_kind"
proof -
  from assms have "set (unique LCZ) = set (unique LCZ')" by (simp add: set_unique)
  then show ?thesis
    by (simp add: get_LCZ_order_def Let_def split: sum.splits option.splits)
qed

theorem get_LCZ_order_set_only_witness:
  "set [Cls ''B'', Cls ''A'', Cls ''B''] = set [Cls ''A'', Cls ''B''] \<and>
   get_LCZ_order [Cls ''B'', Cls ''A'', Cls ''B''] (Members [(1, ''A''), (2, ''B'')]) ''class''
     = get_LCZ_order [Cls ''A'', Cls ''B''] (Members [(1, ''A''), (2, ''B'')]) ''class''"
proof -
  have h: "set [Cls ''B'', Cls ''A'', Cls ''B''] = set [Cls ''A'', Cls ''B'']" by auto
  show ?thesis
    using h get_LCZ_order_set_only [OF h] by simp
qed

text \<open>
  C10.  On an empty input and a well-formed mapper, \<open>get_LCZ_order\<close> with a recognised
  kind returns the empty list.
\<close>

theorem get_LCZ_order_empty:
  assumes "LCZ_kind = ''num'' \<or> LCZ_kind = ''class''"
  shows "get_LCZ_order [] (Members items) LCZ_kind = Inr []"
  using assms by (auto simp: get_LCZ_order_num get_LCZ_order_class)

theorem get_LCZ_order_empty_witness:
  "(''num'' = ''num'' \<or> ''num'' = ''class'') \<and>
   get_LCZ_order [] (Members [(1, ''A''), (2, ''B'')]) ''num'' = Inr []"
proof -
  have h: "''num'' = ''num'' \<or> ''num'' = ''class''" by simp
  show ?thesis
    using h get_LCZ_order_empty [OF h, of "[(1, ''A''), (2, ''B'')]"] by simp
qed

section \<open>Properties of the comparison plotter\<close>

subsection \<open>Rounding to binary64\<close>

lemma pow2_pos: "0 < pow2 e"
  by (simp add: pow2_def)

lemma pow2_mono: "e \<le> e' \<Longrightarrow> pow2 e \<le> pow2 e'"
  by (simp add: pow2_def power_int_increasing)

lemma pow2_strict: "e < e' \<Longrightarrow> pow2 e < pow2 e'"
  by (simp add: pow2_def power_int_strict_increasing)

lemma pow2_add: "pow2 (a + b) = pow2 a * pow2 b"
  by (simp add: pow2_def power_int_add)

lemma pow2_nat: "0 \<le> n \<Longrightarrow> pow2 n = 2 ^ nat n"
  by (simp add: pow2_def power_int_def)

lemma binade_unique:
  assumes "pow2 e \<le> x" and "x < pow2 (e + 1)" and "pow2 e' \<le> x" and "x < pow2 (e' + 1)"
  shows "e = e'"
proof (rule ccontr)
  assume "e \<noteq> e'"
  then consider "e + 1 \<le> e'" | "e' + 1 \<le> e" by linarith
  then show False
  proof cases
    case 1
    from pow2_mono [OF 1] assms(2,3) show False by linarith
  next
    case 2
    from pow2_mono [OF 2] assms(1,4) show False by linarith
  qed
qed

lemma expo_bounds:
  assumes "0 < x"
  shows "pow2 (expo x) \<le> x \<and> x < pow2 (expo x + 1)"
proof -
  obtain p q where pq: "quotient_of x = (p, q)" by (cases "quotient_of x")
  then have q: "0 < q" by (rule quotient_of_denom_pos)
  from pq have x: "x = of_int p / of_int q" by (rule quotient_of_div)
  with assms q have p: "0 < p" by (simp add: zero_less_divide_iff)
  let ?bp = "bitlen p" and ?bq = "bitlen q"
  from p have bp1: "1 \<le> ?bp" using bitlen_eq_zero_iff [of p] bitlen_nonneg [of p] by linarith
  from q have bq1: "1 \<le> ?bq" using bitlen_eq_zero_iff [of q] bitlen_nonneg [of q] by linarith
  from bitlen_bounds [OF p] have "(of_int (2 ^ nat (?bp - 1)) :: rat) \<le> of_int p"
    and "(of_int p :: rat) < of_int (2 ^ nat ?bp)"
    by (simp_all only: of_int_le_iff of_int_less_iff)
  then have p_lo: "pow2 (?bp - 1) \<le> of_int p" and p_hi: "of_int p < pow2 ?bp"
    using bp1 by (simp_all add: pow2_nat)
  from bitlen_bounds [OF q] have "(of_int (2 ^ nat (?bq - 1)) :: rat) \<le> of_int q"
    and "(of_int q :: rat) < of_int (2 ^ nat ?bq)"
    by (simp_all only: of_int_le_iff of_int_less_iff)
  then have q_lo: "pow2 (?bq - 1) \<le> of_int q" and q_hi: "of_int q < pow2 ?bq"
    using bq1 by (simp_all add: pow2_nat)
  let ?e = "?bp - ?bq"
  have qpos: "(0::rat) < of_int q" using q by simp
  have hi: "x < pow2 (?e + 1)"
  proof -
    have "of_int p < pow2 ?bp" by (rule p_hi)
    also have "pow2 ?bp = pow2 (?e + 1) * pow2 (?bq - 1)"
      by (simp add: pow2_add [symmetric])
    also have "\<dots> \<le> pow2 (?e + 1) * of_int q"
      using q_lo pow2_pos [of "?e + 1"] by (simp add: mult_left_mono)
    finally show ?thesis using qpos by (simp add: x pos_divide_less_eq)
  qed
  have lo: "pow2 (?e - 1) < x"
  proof -
    have "pow2 (?e - 1) * of_int q < pow2 (?e - 1) * pow2 ?bq"
      using q_hi pow2_pos [of "?e - 1"] by (simp add: mult_strict_left_mono)
    also have "\<dots> = pow2 (?bp - 1)" by (simp add: pow2_add [symmetric])
    also have "\<dots> \<le> of_int p" by (rule p_lo)
    finally show ?thesis using qpos by (simp add: x pos_less_divide_eq)
  qed
  show ?thesis
  proof (cases "pow2 ?e \<le> x")
    case True
    then have "expo x = ?e" by (simp add: expo_def pq)
    with True hi show ?thesis by simp
  next
    case False
    then have "expo x = ?e - 1" by (simp add: expo_def pq)
    with False lo show ?thesis by simp
  qed
qed

lemma expo_eq:
  assumes "pow2 e \<le> x" and "x < pow2 (e + 1)"
  shows "expo x = e"
proof -
  from assms(1) pow2_pos [of e] have "0 < x" by linarith
  from expo_bounds [OF this] assms show ?thesis by (auto intro: binade_unique)
qed

lemma round_even_cases: "round_even q = \<lfloor>q\<rfloor> \<or> round_even q = \<lfloor>q\<rfloor> + 1"
  by (simp add: round_even_def Let_def)

lemma round_even_abs:
  assumes "\<bar>q\<bar> < of_int n"
  shows "\<bar>round_even q\<bar> \<le> n"
proof -
  from assms have "q < of_int n" and "- of_int n < q" by (simp_all add: abs_less_iff)
  then have "\<lfloor>q\<rfloor> < n" and "- n \<le> \<lfloor>q\<rfloor>"
    by (simp_all add: floor_less_iff le_floor_iff)
  with round_even_cases [of q] show ?thesis by linarith
qed

lemma rnd_binade:
  assumes "pow2 e \<le> \<bar>x\<bar>" and "\<bar>x\<bar> < pow2 (e + 1)" and "- 1022 \<le> e" and "e < 1023"
  shows "rnd x = Fin (of_int (round_even (x / pow2 (e - 52))) * pow2 (e - 52))"
proof -
  let ?u = "pow2 (e - 52)"
  let ?m = "round_even (x / ?u)"
  from assms(1) pow2_pos [of e] have nz: "x \<noteq> 0" by auto
  have "pow2 (53 + (e - 52)) = pow2 53 * ?u" by (rule pow2_add)
  then have split53: "pow2 (e + 1) = pow2 53 * ?u" by (simp add: add.commute)
  have ex: "expo \<bar>x\<bar> = e" using assms(1,2) by (rule expo_eq)
  have u: "pow2 (max (expo \<bar>x\<bar>) (- 1022) - 52) = ?u" using assms(3) by (simp add: ex)
  have "\<bar>x / ?u\<bar> < pow2 (e + 1) / ?u"
    using assms(2) pow2_pos [of "e - 52"] by (simp add: divide_strict_right_mono)
  also have "pow2 (e + 1) = pow2 53 * ?u" by (rule split53)
  finally have "\<bar>x / ?u\<bar> < pow2 53" using pow2_pos [of "e - 52"] by simp
  also have "pow2 53 = of_int (2 ^ 53)" by (simp add: pow2_def)
  finally have "\<bar>?m\<bar> \<le> 2 ^ 53" by (rule round_even_abs)
  then have "(of_int \<bar>?m\<bar> :: rat) \<le> of_int (2 ^ 53)" by (simp only: of_int_le_iff)
  then have "\<bar>of_int ?m :: rat\<bar> \<le> pow2 53" by (simp add: pow2_def)
  then have "\<bar>of_int ?m * ?u\<bar> \<le> pow2 53 * ?u"
    using pow2_pos [of "e - 52"] by (simp add: abs_mult mult_right_mono)
  also have "\<dots> = pow2 (e + 1)" by (rule split53 [symmetric])
  also have "\<dots> < pow2 1024" using assms(4) by (intro pow2_strict) simp
  finally have "\<not> pow2 1024 \<le> \<bar>of_int ?m * ?u\<bar>" by simp
  then show ?thesis using nz by (simp add: rnd_def u Let_def)
qed

lemma floor_rat_numeral:
  "\<lfloor>numeral a / numeral b :: rat\<rfloor> = numeral a div numeral b"
  by (metis floor_divide_of_int_eq of_int_numeral)

lemma floor_rat_neg_numeral:
  "\<lfloor>- (numeral a / numeral b) :: rat\<rfloor> = - numeral a div numeral b"
  by (metis divide_minus_left floor_divide_of_int_eq of_int_neg_numeral of_int_numeral)

lemmas eval_rnd = pow2_def round_even_def Let_def floor_rat_numeral floor_rat_neg_numeral


subsection \<open>Some values\<close>

lemma rnd_int_values:
  "rnd 100 = Fin 100" "rnd 310 = Fin 310" "rnd 210 = Fin 210" "rnd 250 = Fin 250"
  "rnd 120 = Fin 120" "rnd (- 100) = Fin (- 100)" "rnd (- 56) = Fin (- 56)"
  "rnd 110 = Fin 110" "rnd (- 110) = Fin (- 110)"
  using rnd_binade [of 6 100] rnd_binade [of 8 310] rnd_binade [of 7 210]
    rnd_binade [of 7 250] rnd_binade [of 6 120] rnd_binade [of 6 "- 100"]
    rnd_binade [of 5 "- 56"] rnd_binade [of 6 110] rnd_binade [of 6 "- 110"]
  by (simp_all add: eval_rnd)

lemma literal_0_05_value: "literal_0_05 = Fin (3602879701896397 / 72057594037927936)"
  unfolding literal_0_05_def using rnd_binade [of "- 5" "1 / 20"] by (simp add: eval_rnd)

lemma fmul_literal_210: "fmul literal_0_05 (Fin 210) = Fin (21 / 2)"
  using rnd_binade [of 3 "3602879701896397 / 72057594037927936 * 210"]
  by (simp add: literal_0_05_value eval_rnd)



lemma padded_100_310: "padded (Fin 100) (Fin 310) (Fin 210) = (Fin 89.5, Fin 320.5)"
  using rnd_binade [of 6 "179 / 2"] rnd_binade [of 8 "641 / 2"]
  by (simp add: padded_def fsub_def fmul_literal_210 eval_rnd)





subsection \<open>Running the steps\<close>

lemma run_calls: "c \<in> set (fst (run lib ss)) \<Longrightarrow> Do c \<in> set ss"
  by (induction lib ss rule: run.induct) (auto split: option.splits prod.splits)


subsection \<open>The axes' ranges\<close>

lemma wider_same: "wider t t = t"
  by (simp add: wider_def)

lemma wrap_small: "0 \<le> k \<Longrightarrow> k < 2 ^ (bits t - 1) \<Longrightarrow> wrap t k = k"
  by (cases t) (simp_all add: wrap_def)

lemma fold_min_Min: "fold min xs x = Min (set (x # xs))"
  for x :: "'a::linorder"
  by (simp only: Min.set_eq_fold)

lemma fold_max_Max: "fold max xs x = Max (set (x # xs))"
  for x :: "'a::linorder"
  by (simp only: Max.set_eq_fold)

lemma col_min_Ints: "xs \<noteq> [] \<Longrightarrow> col_min (Ints t xs) = Inr (IntS t (Min (set xs)))"
  by (cases xs) (simp_all only: col_min.simps fold_min_Min list.distinct)

lemma col_max_Ints: "xs \<noteq> [] \<Longrightarrow> col_max (Ints t xs) = Inr (IntS t (Max (set xs)))"
  by (cases xs) (simp_all only: col_max.simps fold_max_Max list.distinct)





lemma axes_ranges_ints:
  assumes "map_of df col_actual = Some (Ints t xs)" and "map_of df col_pred = Some (Ints t' ys)"
    and "xs \<noteq> []" and "ys \<noteq> []"
    and "Max (set xs \<union> set ys) - Min (set xs \<union> set ys) < 2 ^ (bits (wider t t') - 1)"
  shows "axes_ranges df col_actual col_pred =
     (case padded (rnd (of_int (Min (set xs \<union> set ys)))) (rnd (of_int (Max (set xs \<union> set ys))))
             (rnd (of_int (Max (set xs \<union> set ys) - Min (set xs \<union> set ys)))) of
        (X, Y) \<Rightarrow> Inr (X, Y, X, Y))"
proof -
  let ?S = "set xs \<union> set ys"
  have lo: "min (Min (set xs)) (Min (set ys)) = Min ?S"
    using assms(3,4) by (simp add: Min_Un)
  have hi: "max (Max (set xs)) (Max (set ys)) = Max ?S"
    using assms(3,4) by (simp add: Max_Un)
  from assms(3) obtain x where "x \<in> ?S" by (cases xs) auto
  then have "Min ?S \<le> x" and "x \<le> Max ?S" by simp_all
  then have "0 \<le> Max ?S - Min ?S" by linarith
  then have "wrap (wider t t') (Max ?S - Min ?S) = Max ?S - Min ?S"
    using assms(5) by (rule wrap_small)
  then show ?thesis
    using assms(1-4)
    by (simp add: axes_ranges_def col_min_Ints col_max_Ints lo hi padded_def Let_def
        wider_same)
qed





lemma axes_ranges_missing:
  "map_of df col_actual = None \<or> map_of df col_pred = None \<Longrightarrow>
   axes_ranges df col_actual col_pred = Inl KeyError"
  by (auto simp: axes_ranges_def split: option.splits)

subsection \<open>The steps of the plotter\<close>

lemma plot_steps_no_hue:
  "plot_steps df col_actual col_pred col_hue hue_title_fancy hue_order hue_palette
       target_title_fancy target_units_title_fancy scores False print_scores =
   plot_steps df col_actual col_pred col_hue' hue_title_fancy' hue_order' hue_palette'
       target_title_fancy target_units_title_fancy scores False print_scores"
  by (simp add: plot_steps_def range_steps_def)

lemma plot_steps_Legend:
  "Do (Legend title) \<in> set (plot_steps df col_actual col_pred col_hue hue_title_fancy
       hue_order hue_palette target_title_fancy target_units_title_fancy scores use_hue
       print_scores) \<Longrightarrow> use_hue"
  by (auto simp: plot_steps_def range_steps_def split: option.splits sum.splits if_splits)

lemma plot_steps_Scatterplot:
  "Do (Scatterplot d x y hue ord pal) \<in> set (plot_steps df col_actual col_pred col_hue
       hue_title_fancy hue_order hue_palette target_title_fancy target_units_title_fancy
       scores use_hue print_scores) \<Longrightarrow>
   hue = (if use_hue then col_hue else None) \<and>
   ord = (if use_hue then hue_order else None) \<and>
   pal = (if use_hue then hue_palette else None)"
  by (auto simp: plot_steps_def range_steps_def split: option.splits sum.splits if_splits)



section \<open>Claims on the comparison plotter\<close>

text \<open>
  C4.  The claim: when the record set lacks the actual (or predicted, or hue) field,
  \<open>plot_pred_vs_actual\<close> fails before any rendering side effect.  The function has no
  check of its own: the first statement that looks at the field names is the scatter
  plot, after the figure, the axes and the title.  With a library whose scatter plot
  rejects the absent column, those three calls have returned when the failure comes.
\<close>

theorem plot_pred_vs_actual_unchecked_call:
  "plot_pred_vs_actual strict [(''y_pred'', Ints Int64 [285, 308])]
      ''y_actual'' ''y_pred'' None None None None [] [] None False True
   = ([Rc_context, Figure, Axes, Title ''Actual and predicted ''], Some ValueError)"
  by (simp add: plot_pred_vs_actual_def plot_steps_def)

text \<open>
  C4, as the code has it.  Against a library whose scatter plot rejects an absent
  column with \<open>ValueError\<close>: when the actual column, the predicted column, or (with
  \<open>use_hue\<close> true) the hue column is absent from the data frame, the call fails with
  \<open>ValueError\<close>; the failure comes after the figure, the axes and the title have been
  made, and before anything else is.
\<close>

theorem plot_pred_vs_actual_missing_field:
  assumes "map_of df col_actual = None \<or> map_of df col_pred = None \<or>
           (use_hue \<and> col_hue = Some h \<and> map_of df h = None)"
  shows "plot_pred_vs_actual strict df col_actual col_pred col_hue hue_title_fancy hue_order
           hue_palette target_title_fancy target_units_title_fancy scores use_hue print_scores
         = ([Rc_context, Figure, Axes, Title (''Actual and predicted '' @ target_title_fancy)],
            Some ValueError)"
proof -
  from assms have "strict (Scatterplot df col_actual col_pred
      (if use_hue then col_hue else None) (if use_hue then hue_order else None)
      (if use_hue then hue_palette else None)) = Some ValueError"
    by auto
  then show ?thesis by (simp add: plot_pred_vs_actual_def plot_steps_def)
qed

theorem plot_pred_vs_actual_missing_field_witness:
  "(map_of [(''y_actual'', Ints Int64 [284, 310]), (''y_pred'', Ints Int64 [285, 308])]
      ''y_actual'' = None \<or>
    map_of [(''y_actual'', Ints Int64 [284, 310]), (''y_pred'', Ints Int64 [285, 308])]
      ''y_pred'' = None \<or>
    (True \<and> Some ''LCZ'' = Some ''LCZ'' \<and>
     map_of [(''y_actual'', Ints Int64 [284, 310]), (''y_pred'', Ints Int64 [285, 308])]
       ''LCZ'' = None)) \<and>
   plot_pred_vs_actual strict
      [(''y_actual'', Ints Int64 [284, 310]), (''y_pred'', Ints Int64 [285, 308])]
      ''y_actual'' ''y_pred'' (Some ''LCZ'') None None None [] [] None True False
   = ([Rc_context, Figure, Axes, Title ''Actual and predicted ''], Some ValueError)"
  (is "?h \<and> ?run = ?result")
proof -
  have h: ?h by simp
  from plot_pred_vs_actual_missing_field [OF h] have "?run = ?result" by simp
  with h show ?thesis by (rule conjI)
qed






text \<open>
  C8.  With \<open>use_hue\<close> false, the outcome of \<open>plot_pred_vs_actual\<close> does not depend on
  \<open>hue_order\<close> and \<open>hue_palette\<close> (nor on \<open>col_hue\<close> and \<open>hue_title_fancy\<close>), no
  legend is made, and the scatter plot is called without hue, hue order and palette, so
  that all points get the one default colour.
\<close>

theorem plot_pred_vs_actual_no_hue:
  fixes lib df col_actual col_pred col_hue hue_title_fancy hue_order hue_palette
    target_title_fancy target_units_title_fancy scores print_scores
  defines "R \<equiv> plot_pred_vs_actual lib df col_actual col_pred col_hue hue_title_fancy
      hue_order hue_palette target_title_fancy target_units_title_fancy scores False
      print_scores"
  shows "R = plot_pred_vs_actual lib df col_actual col_pred col_hue' hue_title_fancy'
               hue_order' hue_palette' target_title_fancy target_units_title_fancy scores
               False print_scores \<and>
         (\<forall>title. Legend title \<notin> set (fst R)) \<and>
         (\<forall>d x y hue ord pal. Scatterplot d x y hue ord pal \<in> set (fst R)
             \<longrightarrow> hue = None \<and> ord = None \<and> pal = None)"
proof (intro conjI allI impI)
  show "R = plot_pred_vs_actual lib df col_actual col_pred col_hue' hue_title_fancy'
               hue_order' hue_palette' target_title_fancy target_units_title_fancy scores
               False print_scores"
    unfolding R_def plot_pred_vs_actual_def
    by (simp only: plot_steps_no_hue [of _ _ _ col_hue hue_title_fancy hue_order hue_palette
          _ _ _ _ col_hue' hue_title_fancy' hue_order' hue_palette'])
next
  fix title
  show "Legend title \<notin> set (fst R)"
    unfolding R_def plot_pred_vs_actual_def
    using run_calls plot_steps_Legend by blast
next
  fix d x y hue ord pal
  assume "Scatterplot d x y hue ord pal \<in> set (fst R)"
  then have "Do (Scatterplot d x y hue ord pal) \<in> set (plot_steps df col_actual col_pred
       col_hue hue_title_fancy hue_order hue_palette target_title_fancy
       target_units_title_fancy scores False print_scores)"
    unfolding R_def plot_pred_vs_actual_def by (rule run_calls)
  from plot_steps_Scatterplot [OF this]
  show "hue = None" and "ord = None" and "pal = None" by simp_all
qed

theorem plot_pred_vs_actual_no_hue_witness:
  "plot_pred_vs_actual lenient
      [(''y_actual'', Ints Int64 [100, 250]), (''y_pred'', Ints Int64 [310, 120]),
       (''LCZ'', Labels [Some ''A'', Some ''B''])]
      ''y_actual'' ''y_pred'' (Some ''LCZ'') (Some ''LCZ-Majority'')
      (Some [Cls ''A'', Cls ''B'']) (Some [(''A'', ''#8c0000''), (''B'', ''#d10000'')])
      [] [] None False True
   = ([Rc_context, Figure, Axes, Title ''Actual and predicted '',
       Scatterplot [(''y_actual'', Ints Int64 [100, 250]), (''y_pred'', Ints Int64 [310, 120]),
                    (''LCZ'', Labels [Some ''A'', Some ''B''])]
         ''y_actual'' ''y_pred'' None None None,
       Set_xlim (Fin 89.5) (Fin 320.5), Set_ylim (Fin 89.5) (Fin 320.5),
       Axline, Set_xlabel (axis_label ''Actual'' [] []),
       Set_ylabel (axis_label ''Predicted'' [] []),
       Minorticks_on, Set_aspect, Grid ''major'', Grid ''minor'', Show], None)"
  (is "?run = ?result")
proof -
  have "axes_ranges [(''y_actual'', Ints Int64 [100, 250]), (''y_pred'', Ints Int64 [310, 120]),
       (''LCZ'', Labels [Some ''A'', Some ''B''])] ''y_actual'' ''y_pred''
      = Inr (Fin 89.5, Fin 320.5, Fin 89.5, Fin 320.5)"
    using axes_ranges_ints [of _ "''y_actual''" Int64 "[100, 250]" "''y_pred''" Int64 "[310, 120]"]
    by (simp add: wider_def rnd_int_values padded_100_310)
  then have ev: "?run = ?result"
    by (simp add: plot_pred_vs_actual_def plot_steps_def range_steps_def lenient_def)
  have "\<forall>title. Legend title \<notin> set (fst ?run)"
    by (rule conjunct1 [OF conjunct2 [OF plot_pred_vs_actual_no_hue]])
  with ev show ?thesis by simp
qed

end
